theory Spec2Isabelle
  imports Complex_Main "HOL-Library.Word"
begin

unbundle bit_operations_syntax

section \<open>The declared infrastructure of \<open>pulumi/index.ts\<close>\<close>

text \<open>
  The program is one module of resource declarations. Every argument object of the source
  is a record here, every declared resource a constant holding the arguments the source
  passes. A value the source reads from another resource (\<open>instancesSecurityGroup.id\<close>,
  \<open>asg.group.arn\<close>, \<open>capacityProvider.name\<close>) is a reference to that resource by its
  logical name.
\<close>

datatype ref = Id string | Arn string | Name string

datatype Vpc = DefaultVpc

definition vpc :: Vpc where
  "vpc = DefaultVpc"

definition clusterName :: string where
  "clusterName = ''dev-cluster''"

subsection \<open>The cluster identifier\<close>

text \<open>
  \<open>new random.RandomString(clusterName, {special: false, upper: false, length: 6})\<close>.
  The field \<open>length\<close> of the source is \<open>length_rs\<close> here.
\<close>

record RandomStringArgs =
  special :: bool
  upper :: bool
  length_rs :: nat

definition randomStringArgs :: RandomStringArgs where
  "randomStringArgs = \<lparr> special = False, upper = False, length_rs = 6 \<rparr>"

text \<open>
  The random provider is not part of the repository. Its documented alphabets are taken as
  they are: lower-case letters and digits are enabled unless switched off (the source
  switches neither off), upper-case letters and special characters are enabled by the
  two flags the source sets. A result of the generator is any string of the requested
  length over the enabled alphabet.
\<close>

definition lowerChars :: string where
  "lowerChars = ''abcdefghijklmnopqrstuvwxyz''"

definition upperChars :: string where
  "upperChars = ''ABCDEFGHIJKLMNOPQRSTUVWXYZ''"

definition numChars :: string where
  "numChars = ''0123456789''"

definition specialChars :: string where
  "specialChars = ''!@#$%&*()-_=+[]{}<>:?''"

definition alphabet :: "RandomStringArgs \<Rightarrow> string" where
  "alphabet a = lowerChars @ numChars
                @ (if upper a then upperChars else [])
                @ (if special a then specialChars else [])"

definition randomResult :: "RandomStringArgs \<Rightarrow> string \<Rightarrow> bool" where
  "randomResult a s = (length s = length_rs a \<and> list_all (\<lambda>c. c \<in> set (alphabet a)) s)"

text \<open>\<open>.result.apply(s => `${clusterName}-` + s)\<close>\<close>

definition clusterIdentifier :: "string \<Rightarrow> string" where
  "clusterIdentifier s = (clusterName @ ''-'') @ s"

text \<open>
  The pattern \<open>dev-cluster-[a-z0-9]{6}\<close>: a sequence of atoms, each a literal character
  or a character class, matched position by position against the whole string.
\<close>

datatype atom = Lit char | OneOf string

fun accepts :: "atom \<Rightarrow> char \<Rightarrow> bool" where
  "accepts (Lit c) d = (c = d)"
| "accepts (OneOf cs) d = (d \<in> set cs)"

definition matches :: "atom list \<Rightarrow> string \<Rightarrow> bool" where
  "matches p s = list_all2 accepts p s"

definition clusterNamePattern :: "atom list" where
  "clusterNamePattern =
     map Lit ''dev-cluster-''
     @ replicate 6 (OneOf ''abcdefghijklmnopqrstuvwxyz0123456789'')"

subsection \<open>Security groups\<close>

record SecurityGroupRule =
  fromPort :: nat
  toPort :: nat
  protocol :: string
  cidrBlocks :: "string list"

record SecurityGroupArgs =
  sgVpc :: Vpc
  description :: string
  ingress :: "SecurityGroupRule list"
  egress :: "SecurityGroupRule list"

text \<open>A declared resource: its logical name (the first constructor argument) and its arguments.\<close>

record 'a resource =
  logicalName :: string
  args :: 'a

definition instancesSecurityGroup :: "SecurityGroupArgs resource" where
  "instancesSecurityGroup =
     \<lparr> logicalName = ''dev-instances-sg'',
       args = \<lparr> sgVpc = vpc,
                description = ''The Security group for all instances that only allow ingress of the Load Balancer.'',
                ingress = [\<lparr> fromPort = 80, toPort = 80, protocol = ''tcp'',
                             cidrBlocks = [''0.0.0.0/0''] \<rparr>],
                egress = [\<lparr> fromPort = 0, toPort = 65535, protocol = ''tcp'',
                            cidrBlocks = [''0.0.0.0/0''] \<rparr>] \<rparr> \<rparr>"

text \<open>
  What a rule list lets through. A packet has a protocol, a 16-bit port and an IPv4
  address. A rule lets a packet through when one of its CIDR blocks holds the address and
  either its protocol is \<open>-1\<close> (all traffic, ports ignored) or its protocol is the
  packet's and the port lies in \<open>fromPort..toPort\<close>. A group lets through what one of its
  rules does; what no rule names is denied.
\<close>

record packet =
  pktProtocol :: string
  pktPort :: "16 word"
  pktAddr :: "32 word"

fun splitOn :: "'a \<Rightarrow> 'a list \<Rightarrow> 'a list list" where
  "splitOn d [] = [[]]"
| "splitOn d (c # cs) =
     (if c = d then [] # splitOn d cs
      else (case splitOn d cs of
              [] \<Rightarrow> [[c]]
            | w # ws \<Rightarrow> (c # w) # ws))"

definition digitVal :: "char \<Rightarrow> nat option" where
  "digitVal c = (if c \<in> set ''0123456789'' then Some (of_char c - 48) else None)"

fun parseDigits :: "nat \<Rightarrow> string \<Rightarrow> nat option" where
  "parseDigits acc [] = Some acc"
| "parseDigits acc (c # cs) =
     (case digitVal c of
        None \<Rightarrow> None
      | Some d \<Rightarrow> parseDigits (acc * 10 + d) cs)"

definition parseNat :: "string \<Rightarrow> nat option" where
  "parseNat s = (if s = [] then None else parseDigits 0 s)"

definition parseCidr :: "string \<Rightarrow> (32 word \<times> nat) option" where
  "parseCidr s =
     (case splitOn CHR ''/'' s of
        [a, l] \<Rightarrow>
          (case (map parseNat (splitOn CHR ''.'' a), parseNat l) of
             ([Some o1, Some o2, Some o3, Some o4], Some n) \<Rightarrow>
               if o1 < 256 \<and> o2 < 256 \<and> o3 < 256 \<and> o4 < 256 \<and> n \<le> 32
               then Some (word_of_nat (((o1 * 256 + o2) * 256 + o3) * 256 + o4), n)
               else None
           | _ \<Rightarrow> None)
      | _ \<Rightarrow> None)"

definition cidrContains :: "32 word \<times> nat \<Rightarrow> 32 word \<Rightarrow> bool" where
  "cidrContains b a = (drop_bit (32 - snd b) a = drop_bit (32 - snd b) (fst b))"

definition blockHolds :: "string \<Rightarrow> 32 word \<Rightarrow> bool" where
  "blockHolds c a = (case parseCidr c of None \<Rightarrow> False | Some b \<Rightarrow> cidrContains b a)"

definition rulePermits :: "SecurityGroupRule \<Rightarrow> packet \<Rightarrow> bool" where
  "rulePermits r p =
     (list_ex (\<lambda>c. blockHolds c (pktAddr p)) (cidrBlocks r)
      \<and> (protocol r = ''-1''
         \<or> (protocol r = pktProtocol p
            \<and> fromPort r \<le> unat (pktPort p) \<and> unat (pktPort p) \<le> toPort r)))"

definition groupPermits :: "SecurityGroupRule list \<Rightarrow> packet \<Rightarrow> bool" where
  "groupPermits rs p = list_ex (\<lambda>r. rulePermits r p) rs"

subsection \<open>Boot-time user data\<close>

text \<open>
  \<open>extraBootcmdLines: () => clusterIdentifier.apply(clusterId => [...])\<close>. The function
  under \<open>apply\<close> is \<open>bootcmdLines\<close>; the constant \<open>userData\<close> of the source takes the
  random suffix the identifier is built from. The character \<open>CHR 0x27\<close> is the single
  quote of the first template.
\<close>

record BootcmdLine =
  contents :: string

record AutoScalingUserData =
  extraBootcmdLines :: "BootcmdLine list"

definition bootcmdLines :: "string \<Rightarrow> BootcmdLine list" where
  "bootcmdLines clusterId =
     [ \<lparr> contents = ''- echo ECS_CLUSTER='' @ [CHR 0x27] @ clusterId @ [CHR 0x27]
                      @ '' >> /etc/ecs/ecs.config'' \<rparr>,
       \<lparr> contents = ''- echo ECS_ENABLE_CONTAINER_METADATA=true >> /etc/ecs/ecs.config'' \<rparr>,
       \<lparr> contents = ''- echo ECS_RESERVED_MEMORY=256 >> /etc/ecs/ecs.config'' \<rparr> ]"

definition userData :: "string \<Rightarrow> AutoScalingUserData" where
  "userData s = \<lparr> extraBootcmdLines = bootcmdLines (clusterIdentifier s) \<rparr>"

text \<open>
  How the shell reads a command line: words are separated by blanks, single quotes group
  and are removed. The operators of the source (\<open>>>\<close>, \<open>||\<close>) stand as words of their own
  there, and are recognised as such.
\<close>

fun shWords :: "bool \<Rightarrow> string \<Rightarrow> string \<Rightarrow> string list" where
  "shWords q w [] = (if w = [] then [] else [w])"
| "shWords q w (c # cs) =
     (if c = CHR 0x27 then shWords (\<not> q) w cs
      else if c = CHR '' '' \<and> \<not> q
        then (if w = [] then shWords q [] cs else w # shWords q [] cs)
      else shWords q (w @ [c]) cs)"

text \<open>
  A boot command line of the form \<open>- echo WORDS >> FILE\<close> appends one line to \<open>FILE\<close>:
  the echoed words, joined by single blanks. The leading \<open>-\<close> is the list marker of the
  boot command section.
\<close>

fun joinWords :: "string list \<Rightarrow> string" where
  "joinWords [] = []"
| "joinWords [w] = w"
| "joinWords (w # v # vs) = w @ '' '' @ joinWords (v # vs)"

definition bootcmdAppends :: "BootcmdLine \<Rightarrow> (string \<times> string) option" where
  "bootcmdAppends l =
     (case shWords False [] (contents l) of
        m # e # ws \<Rightarrow>
          (case rev ws of
             f # r # ts \<Rightarrow>
               if m = ''-'' \<and> e = ''echo'' \<and> r = ''>>''
               then Some (f, joinWords (rev ts)) else None
           | _ \<Rightarrow> None)
      | _ \<Rightarrow> None)"

text \<open>The lines a list of boot commands appends to a file, in order.\<close>

definition appendedTo :: "string \<Rightarrow> BootcmdLine list \<Rightarrow> string list" where
  "appendedTo file ls =
     concat (map (\<lambda>l. case bootcmdAppends l of
                          None \<Rightarrow> []
                        | Some (f, t) \<Rightarrow> if f = file then [t] else []) ls)"

text \<open>
  The lines of \<open>extraBootcmdLines\<close> are extra lines: the library that creates the launch
  configuration renders the user data of the instances and puts them at the end of the
  boot command section, after boot commands of its own. The library is not part of the
  repository; \<open>renderBootcmd\<close> takes its own boot commands as the parameter \<open>own\<close>, and
  \<open>libraryBootcmdLines\<close> are the ones it writes: two for the swap device, and one that
  appends the authentication type of the container engine to \<open>/etc/ecs/ecs.config\<close>.
\<close>

definition renderBootcmd :: "BootcmdLine list \<Rightarrow> AutoScalingUserData \<Rightarrow> BootcmdLine list" where
  "renderBootcmd own u = own @ extraBootcmdLines u"

definition libraryBootcmdLines :: "BootcmdLine list" where
  "libraryBootcmdLines =
     [ \<lparr> contents = ''- mkswap /dev/xvdb'' \<rparr>,
       \<lparr> contents = ''- swapon /dev/xvdb'' \<rparr>,
       \<lparr> contents = ''- echo ECS_ENGINE_AUTH_TYPE=docker >> /etc/ecs/ecs.config'' \<rparr> ]"

subsection \<open>The auto-scaling group, the capacity provider and the cluster\<close>

text \<open>
  The constants \<open>userData\<close> and \<open>vpc\<close> are the module's; the fields of the same names are
  \<open>lcUserData\<close> in the launch configuration and \<open>asgVpc\<close>, \<open>clusterVpc\<close>, \<open>sgVpc\<close> in the
  argument objects. \<open>asg.group.arn\<close> is the reference \<open>Arn ''dev-asg''\<close>.
\<close>

record TemplateParameters =
  minSize :: nat
  maxSize :: nat

record LaunchConfigurationArgs =
  instanceType :: string
  securityGroups :: "ref list"
  lcUserData :: AutoScalingUserData

record AutoScalingGroupArgs =
  asgVpc :: Vpc
  templateParameters :: TemplateParameters
  launchConfigurationArgs :: LaunchConfigurationArgs

definition asg :: "string \<Rightarrow> AutoScalingGroupArgs resource" where
  "asg s =
     \<lparr> logicalName = ''dev-asg'',
       args = \<lparr> asgVpc = vpc,
                templateParameters = \<lparr> minSize = 1, maxSize = 2 \<rparr>,
                launchConfigurationArgs =
                  \<lparr> instanceType = ''t2.micro'',
                    securityGroups = [Id (logicalName instancesSecurityGroup)],
                    lcUserData = userData s \<rparr> \<rparr> \<rparr>"

record AutoScalingGroupProvider =
  autoScalingGroupArn :: ref

record CapacityProviderArgs =
  autoScalingGroupProvider :: AutoScalingGroupProvider

definition capacityProvider :: "CapacityProviderArgs resource" where
  "capacityProvider =
     \<lparr> logicalName = ''dev-capacity'',
       args = \<lparr> autoScalingGroupProvider = \<lparr> autoScalingGroupArn = Arn ''dev-asg'' \<rparr> \<rparr> \<rparr>"

record ClusterArgs =
  name :: string
  clusterVpc :: Vpc
  capacityProviders :: "ref list"
  clusterSecurityGroups :: "string list"

text \<open>
  \<open>clusterSecurityGroup\<close> is the default group the library makes for the logical name
  \<open>clusterName\<close>; the cluster holds it by that name.
\<close>

definition cluster :: "string \<Rightarrow> ClusterArgs resource" where
  "cluster s =
     \<lparr> logicalName = clusterName,
       args = \<lparr> name = clusterIdentifier s,
                clusterVpc = vpc,
                capacityProviders = [Name (logicalName capacityProvider)],
                clusterSecurityGroups = [clusterName] \<rparr> \<rparr>"

text \<open>The sizes the group's template admits, and a requested size brought into them.\<close>

definition sizePermitted :: "TemplateParameters \<Rightarrow> nat \<Rightarrow> bool" where
  "sizePermitted t n = (minSize t \<le> n \<and> n \<le> maxSize t)"

definition clampSize :: "TemplateParameters \<Rightarrow> nat \<Rightarrow> nat" where
  "clampSize t n = max (minSize t) (min (maxSize t) n)"

subsection \<open>The scaling policy\<close>








subsection \<open>The task definition\<close>

record PortMapping =
  hostPort :: nat
  containerPort :: nat

record HealthCheck =
  command :: "string list"
  interval :: nat
  startPeriod :: nat
  retries :: nat
  timeout :: nat

text \<open>\<open>context\<close> is \<open>buildContext\<close> here, \<open>image\<close> is \<open>containerImage\<close>.\<close>

record DockerBuild =
  buildContext :: string

datatype Image = FromDockerBuild string DockerBuild

record Container =
  containerImage :: Image
  portMappings :: "PortMapping list"
  memoryReservation :: nat
  memory :: nat
  healthCheck :: HealthCheck

record EC2TaskDefinitionArgs =
  networkMode :: string
  containers :: "(string \<times> Container) list"

text \<open>The object under the key \<open>nginx\<close> of \<open>containers\<close>.\<close>

definition nginx :: Container where
  "nginx =
     \<lparr> containerImage = FromDockerBuild ''nginx-img'' \<lparr> buildContext = ''../'' \<rparr>,
       portMappings = [\<lparr> hostPort = 80, containerPort = 80 \<rparr>],
       memoryReservation = 256,
       memory = 256,
       healthCheck =
         \<lparr> command = [''CMD-SHELL'', ''curl --fail http://localhost || exit 1''],
           interval = 30,
           startPeriod = 5,
           retries = 3,
           timeout = 5 \<rparr> \<rparr>"

definition taskDefinition :: "EC2TaskDefinitionArgs resource" where
  "taskDefinition =
     \<lparr> logicalName = ''nginx-task-def'',
       args = \<lparr> networkMode = ''host'',
                containers = [(''nginx'', nginx)] \<rparr> \<rparr>"

text \<open>
  How a health check command is run. \<open>CMD-SHELL\<close> hands the line to the shell. A line
  \<open>a || b\<close> runs \<open>b\<close> only when \<open>a\<close> ends with a status other than 0, and ends with the
  status of the last command run; \<open>exit n\<close> ends with status \<open>n\<close>. The status of every
  other command is its own: the parameter \<open>env\<close>. The probe passes on status 0.
\<close>

definition runSimple :: "(string list \<Rightarrow> nat) \<Rightarrow> string list \<Rightarrow> nat" where
  "runSimple env ws =
     (case ws of
        [e, n] \<Rightarrow>
          if e = ''exit'' then (case parseNat n of Some k \<Rightarrow> k | None \<Rightarrow> 2) else env ws
      | _ \<Rightarrow> env ws)"

fun runOrList :: "(string list \<Rightarrow> nat) \<Rightarrow> string list list \<Rightarrow> nat" where
  "runOrList env [] = 0"
| "runOrList env [c] = runSimple env c"
| "runOrList env (c # d # ds) =
     (if runSimple env c = 0 then 0 else runOrList env (d # ds))"

definition probeStatus :: "(string list \<Rightarrow> nat) \<Rightarrow> HealthCheck \<Rightarrow> nat option" where
  "probeStatus env h =
     (case command h of
        [k, line] \<Rightarrow>
          if k = ''CMD-SHELL''
          then Some (runOrList env (splitOn ''||'' (shWords False [] line)))
          else None
      | _ \<Rightarrow> None)"

text \<open>
  The container is marked failed as soon as \<open>retries\<close> probes in a row have failed. The
  probe outcomes are read in order (\<open>True\<close> is a passed probe); \<open>k\<close> is the number of
  failures in a row so far.
\<close>

fun markedFailed :: "nat \<Rightarrow> nat \<Rightarrow> bool list \<Rightarrow> bool" where
  "markedFailed r k [] = False"
| "markedFailed r k (ok # rest) =
     (if ok then markedFailed r 0 rest
      else (r \<le> Suc k \<or> markedFailed r (Suc k) rest))"

text \<open>The outcomes hold \<open>r\<close> failed probes in a row somewhere.\<close>

definition failedRun :: "nat \<Rightarrow> bool list \<Rightarrow> bool" where
  "failedRun r rs = (\<exists>as bs. rs = as @ replicate r False @ bs)"

subsection \<open>The service\<close>

text \<open>
  The fields \<open>cluster\<close>, \<open>taskDefinition\<close> and \<open>capacityProvider\<close> carry a prefix: the
  constants of the same names are the module's resources, which the fields hold by
  reference.
\<close>

record CapacityProviderStrategy =
  strategyCapacityProvider :: ref
  base :: nat
  weight :: nat

record PlacementStrategy =
  type :: string
  field :: string

record CapacityProviderServiceArgs =
  serviceCluster :: string
  serviceTaskDefinition :: string
  capacityProviderStrategies :: "CapacityProviderStrategy list"
  orderedPlacementStrategies :: "PlacementStrategy list"
  desiredCount :: nat
  deploymentMinimumHealthyPercent :: nat
  deploymentMaximumPercent :: nat

definition service :: "CapacityProviderServiceArgs resource" where
  "service =
     \<lparr> logicalName = ''nginx-svc'',
       args = \<lparr> serviceCluster = clusterName,
                serviceTaskDefinition = logicalName taskDefinition,
                capacityProviderStrategies =
                  [\<lparr> strategyCapacityProvider = Name (logicalName capacityProvider),
                      base = 1, weight = 1 \<rparr>],
                orderedPlacementStrategies = [\<lparr> type = ''spread'', field = ''instanceId'' \<rparr>],
                desiredCount = 1,
                deploymentMinimumHealthyPercent = 0,
                deploymentMaximumPercent = 100 \<rparr> \<rparr>"

text \<open>
  The two limits a rollout of the service keeps: the number of running tasks never goes
  above \<open>deploymentMaximumPercent\<close> of the desired count, rounded down, and never below
  \<open>deploymentMinimumHealthyPercent\<close> of it, rounded up.
\<close>

definition maximumRunningTasks :: "CapacityProviderServiceArgs \<Rightarrow> nat" where
  "maximumRunningTasks a = deploymentMaximumPercent a * desiredCount a div 100"

definition minimumHealthyTasks :: "CapacityProviderServiceArgs \<Rightarrow> nat" where
  "minimumHealthyTasks a = (deploymentMinimumHealthyPercent a * desiredCount a + 99) div 100"

text \<open>
  A rollout as a step relation. The state is the list of running tasks, each with its
  revision (\<open>False\<close> the old one, \<open>True\<close> the new one) and the host it runs on; \<open>n\<close> is the
  number of hosts. A task may be started on any host while the number of running tasks
  stays within the maximum, and any task may be stopped while the number stays at or
  above the minimum.
\<close>

type_synonym tasks = "(bool \<times> nat) list"

inductive rolloutStep :: "CapacityProviderServiceArgs \<Rightarrow> nat \<Rightarrow> tasks \<Rightarrow> tasks \<Rightarrow> bool" where
  start: "h < n \<Longrightarrow> Suc (length ts) \<le> maximumRunningTasks a
          \<Longrightarrow> rolloutStep a n ts ((True, h) # ts)"
| stop: "i < length ts \<Longrightarrow> minimumHealthyTasks a \<le> length ts - 1
          \<Longrightarrow> rolloutStep a n ts (take i ts @ drop (Suc i) ts)"

inductive rollout :: "CapacityProviderServiceArgs \<Rightarrow> nat \<Rightarrow> tasks \<Rightarrow> tasks \<Rightarrow> bool" where
  refl: "rollout a n ts ts"
| step: "rollout a n ts us \<Longrightarrow> rolloutStep a n us vs \<Longrightarrow> rollout a n ts vs"

code_pred rolloutStep .

definition tasksOn :: "tasks \<Rightarrow> nat \<Rightarrow> nat" where
  "tasksOn ts h = length (filter (\<lambda>t. snd t = h) ts)"

section \<open>Properties of the declared infrastructure\<close>

subsection \<open>Auxiliary facts\<close>

lemma cidr_any_parses: "parseCidr ''0.0.0.0/0'' = Some (0, 0)"
  by (simp add: parseCidr_def parseNat_def digitVal_def)

lemma cidr_any_holds: "blockHolds ''0.0.0.0/0'' a"
  by (simp add: blockHolds_def cidr_any_parses cidrContains_def)

lemma port_is_80: "(80 \<le> unat w \<and> unat w \<le> 80) = (w = (80::16 word))"
proof -
  have "(w = 80) = (unat w = unat (80::16 word))" by (rule word_unat_eq_iff)
  then show ?thesis by auto
qed

lemma port_in_range: "unat (w::16 word) \<le> 65535"
  using unsigned_less [of w, where 'a=nat] by simp

lemma literals_match: "list_all2 accepts (map Lit s) s"
  by (induction s) simp_all

lemma class_matches:
  "list_all (\<lambda>c. c \<in> set cs) s \<Longrightarrow> list_all2 accepts (replicate (length s) (OneOf cs)) s"
  by (induction s) simp_all

lemma alphabet_declared:
  "alphabet randomStringArgs = ''abcdefghijklmnopqrstuvwxyz0123456789''"
  by (simp add: alphabet_def randomStringArgs_def lowerChars_def numChars_def)

lemma generated_suffix:
  assumes "randomResult randomStringArgs s"
  shows "length s = 6"
    and "list_all (\<lambda>c. c \<in> set ''abcdefghijklmnopqrstuvwxyz0123456789'') s"
  using assms unfolding randomResult_def alphabet_declared
  by (simp_all add: randomStringArgs_def)

lemma suffix_k3x9qz: "randomResult randomStringArgs ''k3x9qz''"
  unfolding randomResult_def alphabet_declared by (simp add: randomStringArgs_def)

lemma shWords_quoted:
  "CHR 0x27 \<notin> set t \<Longrightarrow> shWords True w (t @ rest) = shWords True (w @ t) rest"
  by (induction t arbitrary: w) auto

lemma bootcmdLines_append:
  assumes "CHR 0x27 \<notin> set t"
  shows "map bootcmdAppends (bootcmdLines t)
         = [ Some (''/etc/ecs/ecs.config'', ''ECS_CLUSTER='' @ t),
             Some (''/etc/ecs/ecs.config'', ''ECS_ENABLE_CONTAINER_METADATA=true''),
             Some (''/etc/ecs/ecs.config'', ''ECS_RESERVED_MEMORY=256'') ]"
  using assms by (simp add: bootcmdAppends_def bootcmdLines_def shWords_quoted)

lemma run_too_short: "k < r \<Longrightarrow> \<not> failedRun r (replicate k False)"
proof
  assume k: "k < r" and "failedRun r (replicate k False)"
  then obtain as bs where "replicate k False = as @ replicate r False @ bs"
    unfolding failedRun_def by blast
  then have "length (replicate k False) = length (as @ replicate r False @ bs)" by simp
  with k show False by simp
qed

lemma run_after_pass:
  assumes "k < r"
  shows "failedRun r (replicate k False @ True # rest) = failedRun r rest"
proof
  assume "failedRun r rest"
  then obtain as bs where "rest = as @ replicate r False @ bs"
    unfolding failedRun_def by blast
  then have "replicate k False @ True # rest
             = (replicate k False @ True # as) @ replicate r False @ bs"
    by simp
  then show "failedRun r (replicate k False @ True # rest)"
    unfolding failedRun_def by blast
next
  assume "failedRun r (replicate k False @ True # rest)"
  then obtain as bs where e: "replicate k False @ True # rest = as @ replicate r False @ bs"
    unfolding failedRun_def by blast
  have "k < length as"
  proof (rule ccontr)
    assume "\<not> k < length as"
    then have le: "length as \<le> k" by simp
    have "(replicate k False @ True # rest) ! k = True"
      by (simp add: nth_append)
    moreover have "k - length as < r" using assms by simp
    then have "(as @ replicate r False @ bs) ! k = False"
      using le by (simp add: nth_append)
    ultimately show False using e by simp
  qed
  then have "drop (Suc k) (as @ replicate r False @ bs)
             = drop (Suc k) as @ replicate r False @ bs"
    by simp
  moreover have "drop (Suc k) (replicate k False @ True # rest) = rest"
    by simp
  ultimately have "rest = drop (Suc k) as @ replicate r False @ bs"
    using e by simp
  then show "failedRun r rest"
    unfolding failedRun_def by blast
qed

lemma markedFailed_run:
  "k < r \<Longrightarrow> markedFailed r k rs = failedRun r (replicate k False @ rs)"
proof (induction rs arbitrary: k)
  case Nil
  then show ?case by (simp add: run_too_short)
next
  case (Cons ok rs)
  show ?case
  proof (cases ok)
    case True
    have "0 < r" using Cons.prems by simp
    from Cons.IH [OF this] True show ?thesis
      by (simp add: run_after_pass [OF Cons.prems])
  next
    case False
    have app: "replicate k False @ False # rs = replicate (Suc k) False @ rs"
      by (simp add: replicate_append_same)
    show ?thesis
    proof (cases "Suc k < r")
      case True
      from Cons.IH [OF True] False True show ?thesis
        by (simp add: app del: replicate_Suc)
    next
      case f: False
      with Cons.prems have r: "r = Suc k" by simp
      have "replicate k False @ False # rs = [] @ replicate r False @ rs"
        unfolding app r by simp
      then have "failedRun r (replicate k False @ False # rs)"
        unfolding failedRun_def by blast
      with False r show ?thesis by simp
    qed
  qed
qed

lemma rolloutStep_within_maximum:
  "rolloutStep a n ts us \<Longrightarrow> length ts \<le> maximumRunningTasks a
   \<Longrightarrow> length us \<le> maximumRunningTasks a"
  by (induction rule: rolloutStep.induct) auto

lemma rollout_within_maximum:
  "rollout a n ts us \<Longrightarrow> length ts \<le> maximumRunningTasks a
   \<Longrightarrow> length us \<le> maximumRunningTasks a"
  by (induction rule: rollout.induct) (auto intro: rolloutStep_within_maximum)

lemma tasksOn_le_length: "tasksOn ts h \<le> length ts"
  by (simp add: tasksOn_def)

lemma service_maximum: "maximumRunningTasks (args service) = 1"
  by (simp add: maximumRunningTasks_def service_def)

lemma service_minimum: "minimumHealthyTasks (args service) = 0"
  by (simp add: minimumHealthyTasks_def service_def)

lemma start_needs_no_task:
  "rolloutStep (args service) n ts us \<Longrightarrow> length ts < length us \<Longrightarrow> ts = []"
  by (erule rolloutStep.cases) (auto simp: service_maximum)

lemma replace_task:
  assumes "h' < n"
  shows "rollout (args service) n [(False, h)] [(True, h')]"
proof -
  have "rolloutStep (args service) n [(False, h)]
          (take 0 [(False, h)] @ drop (Suc 0) [(False, h)])"
    by (rule rolloutStep.stop) (simp_all add: service_minimum)
  then have stopped: "rolloutStep (args service) n [(False, h)] []" by simp
  have started: "rolloutStep (args service) n [] [(True, h')]"
    by (rule rolloutStep.start) (simp_all add: service_maximum assms)
  from rollout.step [OF rollout.step [OF rollout.refl stopped] started] show ?thesis .
qed

lemma template_declared:
  "templateParameters (args (asg s)) = \<lparr> minSize = 1, maxSize = 2 \<rparr>"
  by (simp add: asg_def)

lemma appendedTo_append: "appendedTo f (xs @ ys) = appendedTo f xs @ appendedTo f ys"
  by (simp add: appendedTo_def)

lemma appendedTo_extra:
  assumes "CHR 0x27 \<notin> set t"
  shows "appendedTo ''/etc/ecs/ecs.config'' (bootcmdLines t)
         = [''ECS_CLUSTER='' @ t, ''ECS_ENABLE_CONTAINER_METADATA=true'', ''ECS_RESERVED_MEMORY=256'']"
proof -
  have three: "bootcmdLines t = [bootcmdLines t ! 0, bootcmdLines t ! 1, bootcmdLines t ! 2]"
    by (simp add: bootcmdLines_def)
  have "map bootcmdAppends [bootcmdLines t ! 0, bootcmdLines t ! 1, bootcmdLines t ! 2]
        = [ Some (''/etc/ecs/ecs.config'', ''ECS_CLUSTER='' @ t),
             Some (''/etc/ecs/ecs.config'', ''ECS_ENABLE_CONTAINER_METADATA=true''),
             Some (''/etc/ecs/ecs.config'', ''ECS_RESERVED_MEMORY=256'') ]"
    using bootcmdLines_append [OF assms] three by simp
  then have "appendedTo ''/etc/ecs/ecs.config'' [bootcmdLines t ! 0, bootcmdLines t ! 1, bootcmdLines t ! 2]
         = [''ECS_CLUSTER='' @ t, ''ECS_ENABLE_CONTAINER_METADATA=true'', ''ECS_RESERVED_MEMORY=256'']"
    unfolding appendedTo_def by simp
  with three show ?thesis by simp
qed

lemma appendedTo_library:
  "appendedTo ''/etc/ecs/ecs.config'' libraryBootcmdLines = [''ECS_ENGINE_AUTH_TYPE=docker'']"
  by (simp add: appendedTo_def libraryBootcmdLines_def bootcmdAppends_def)

lemma generated_unquoted:
  assumes "randomResult randomStringArgs s"
  shows "CHR 0x27 \<notin> set (clusterIdentifier s)"
proof -
  have "CHR 0x27 \<notin> set ''abcdefghijklmnopqrstuvwxyz0123456789''" by simp
  moreover have "\<forall>c\<in>set s. c \<in> set ''abcdefghijklmnopqrstuvwxyz0123456789''"
    using generated_suffix(2) [OF assms] unfolding list_all_iff .
  ultimately have "CHR 0x27 \<notin> set s" by blast
  then show ?thesis by (simp add: clusterIdentifier_def clusterName_def)
qed

lemma user_data_declared:
  "extraBootcmdLines (lcUserData (launchConfigurationArgs (args (asg s))))
   = bootcmdLines (clusterIdentifier s)"
  by (simp add: asg_def userData_def)


subsection \<open>Claim C1: one task per host during a rollout\<close>

text \<open>
  Claim C1. The task definition uses host networking and the service is declared with
  \<open>deploymentMaximumPercent = 100\<close>, \<open>deploymentMinimumHealthyPercent = 0\<close> and
  \<open>desiredCount = 1\<close>. The largest number of tasks a rollout may run,
  \<open>deploymentMaximumPercent * desiredCount div 100\<close>, is 1; it does not exceed the minimum
  size 1 of the scaling group, nor any number of hosts the group admits. In every state a
  rollout reaches from at most one running task, no host carries more than one task; a
  task is started only when no task is running; and the rollout can replace the old task
  by a new one.
\<close>

theorem C1_rollout_one_task_per_host:
  "networkMode (args taskDefinition) = ''host''
   \<and> deploymentMaximumPercent (args service) = 100
   \<and> deploymentMinimumHealthyPercent (args service) = 0
   \<and> desiredCount (args service) = 1
   \<and> maximumRunningTasks (args service) = 1
   \<and> minSize (templateParameters (args (asg s))) = 1
   \<and> (\<forall>n. sizePermitted (templateParameters (args (asg s))) n
          \<longrightarrow> maximumRunningTasks (args service) \<le> n)
   \<and> (\<forall>n ts us h. length ts \<le> 1 \<longrightarrow> rollout (args service) n ts us \<longrightarrow> tasksOn us h \<le> 1)
   \<and> (\<forall>n us vs. rolloutStep (args service) n us vs \<longrightarrow> length us < length vs \<longrightarrow> us = [])
   \<and> (\<forall>n h h'. h' < n \<longrightarrow> rollout (args service) n [(False, h)] [(True, h')])"
proof -
  have bound: "\<forall>n. sizePermitted (templateParameters (args (asg s))) n
          \<longrightarrow> maximumRunningTasks (args service) \<le> n"
    by (simp add: sizePermitted_def template_declared service_maximum)
  have inv: "\<forall>n ts us h. length ts \<le> 1 \<longrightarrow> rollout (args service) n ts us \<longrightarrow> tasksOn us h \<le> 1"
  proof (intro allI impI)
    fix n ts us h
    assume "length ts \<le> 1" and r: "rollout (args service) n ts us"
    then have "length ts \<le> maximumRunningTasks (args service)"
      by (simp add: service_maximum)
    from rollout_within_maximum [OF r this] have "length us \<le> 1"
      by (simp add: service_maximum)
    with tasksOn_le_length [of us h] show "tasksOn us h \<le> 1" by simp
  qed
  have cfg: "networkMode (args taskDefinition) = ''host''"
    "deploymentMaximumPercent (args service) = 100"
    "deploymentMinimumHealthyPercent (args service) = 0"
    "desiredCount (args service) = 1"
    by (simp_all add: taskDefinition_def service_def)
  show ?thesis
    using bound inv cfg start_needs_no_task replace_task
    by (simp add: service_maximum template_declared) 
qed

text \<open>
  Claim C1 at a concrete input: one host, the old task on host 0 replaced by a new task
  on host 0.
\<close>

theorem C1_rollout_one_task_per_host_witness:
  "sizePermitted (templateParameters (args (asg ''k3x9qz''))) 1
   \<and> maximumRunningTasks (args service) \<le> 1
   \<and> length [(False, 0::nat)] \<le> 1
   \<and> rollout (args service) 1 [(False, 0)] [(True, 0)]
   \<and> tasksOn [(True, 0)] 0 \<le> 1
   \<and> rolloutStep (args service) 1 [] [(True, 0)]
   \<and> length ([] :: tasks) < length [(True, 0::nat)]"
proof -
  have p: "sizePermitted (templateParameters (args (asg ''k3x9qz''))) 1"
    by (simp add: sizePermitted_def asg_def)
  have st: "rolloutStep (args service) 1 [] [(True, 0)]"
    by (rule rolloutStep.start) (simp_all add: maximumRunningTasks_def service_def)
  have "(0::nat) < 1" by simp
  with C1_rollout_one_task_per_host [of "''k3x9qz''"]
  have r: "rollout (args service) 1 [(False, 0)] [(True, 0)]" by blast
  have l: "length [(False, 0::nat)] \<le> 1" by simp
  from C1_rollout_one_task_per_host [of "''k3x9qz''"] r l
  have t: "tasksOn [(True, 0)] 0 \<le> 1" by blast
  from C1_rollout_one_task_per_host [of "''k3x9qz''"] p
  have m: "maximumRunningTasks (args service) \<le> 1" by blast
  from p m l r t st show ?thesis by simp
qed

subsection \<open>Claim C2: the generated cluster name\<close>

text \<open>
  Claim C2. For every suffix the generator produces under the declared arguments (length
  6, no upper-case letters, no special characters), the cluster identifier is the base
  name \<open>dev-cluster\<close>, a hyphen and the suffix, and matches \<open>dev-cluster-[a-z0-9]{6}\<close>.
\<close>

theorem C2_cluster_name_pattern:
  assumes "randomResult randomStringArgs s"
  shows "clusterIdentifier s = ''dev-cluster'' @ ''-'' @ s
         \<and> matches clusterNamePattern (clusterIdentifier s)"
proof -
  note suffix = generated_suffix [OF assms]
  have "list_all2 accepts (replicate 6 (OneOf ''abcdefghijklmnopqrstuvwxyz0123456789'')) s"
    using class_matches [OF suffix(2)] suffix(1) by simp
  then have "matches clusterNamePattern (''dev-cluster-'' @ s)"
    unfolding matches_def clusterNamePattern_def
    by (intro list_all2_appendI literals_match)
  then show ?thesis by (simp add: clusterIdentifier_def clusterName_def)
qed

text \<open>Claim C2 at the suffix \<open>k3x9qz\<close>.\<close>

theorem C2_cluster_name_pattern_witness:
  "randomResult randomStringArgs ''k3x9qz''
   \<and> clusterIdentifier ''k3x9qz'' = ''dev-cluster-k3x9qz''
   \<and> matches clusterNamePattern (clusterIdentifier ''k3x9qz'')"
  using C2_cluster_name_pattern [OF suffix_k3x9qz] suffix_k3x9qz by auto

subsection \<open>Claim C3: ingress of the instance security group\<close>

text \<open>
  Claim C3. The launch configuration of the scaling group attaches the instance security
  group and no other. That group has exactly one ingress rule: TCP, ports 80 to 80, from
  \<open>0.0.0.0/0\<close>. An inbound packet is let through exactly when it is a TCP packet for
  port 80, whatever its source address.
\<close>

theorem C3_ingress_only_port_80:
  "securityGroups (launchConfigurationArgs (args (asg s)))
     = [Id (logicalName instancesSecurityGroup)]
   \<and> ingress (args instancesSecurityGroup)
     = [\<lparr> fromPort = 80, toPort = 80, protocol = ''tcp'', cidrBlocks = [''0.0.0.0/0''] \<rparr>]
   \<and> (\<forall>p. groupPermits (ingress (args instancesSecurityGroup)) p
            = (pktProtocol p = ''tcp'' \<and> pktPort p = 80))"
proof -
  have "groupPermits (ingress (args instancesSecurityGroup)) p
        = (pktProtocol p = ''tcp'' \<and> pktPort p = 80)" for p
    unfolding groupPermits_def rulePermits_def instancesSecurityGroup_def
    by (simp add: cidr_any_holds port_is_80 eq_commute [of "''tcp''"])
  then show ?thesis by (simp add: asg_def instancesSecurityGroup_def)
qed

subsection \<open>Claim C4: egress of the instance security group\<close>

text \<open>
  Claim C4 says that the egress rules let every protocol through. They do not: a UDP
  packet to port 53 of 8.8.8.8 is not let out.
\<close>

theorem C4_egress_not_every_protocol:
  "\<not> groupPermits (egress (args instancesSecurityGroup))
       \<lparr> pktProtocol = ''udp'', pktPort = 53, pktAddr = 0x08080808 \<rparr>"
  by (simp add: groupPermits_def rulePermits_def instancesSecurityGroup_def)

text \<open>
  Claim C4, amended. The group has exactly one egress rule: TCP, ports 0 to 65535, to
  \<open>0.0.0.0/0\<close>. An outbound packet is let through exactly when it is a TCP packet,
  whatever its port and its destination address.
\<close>

theorem C4_egress_all_tcp:
  "egress (args instancesSecurityGroup)
     = [\<lparr> fromPort = 0, toPort = 65535, protocol = ''tcp'', cidrBlocks = [''0.0.0.0/0''] \<rparr>]
   \<and> (\<forall>p. groupPermits (egress (args instancesSecurityGroup)) p = (pktProtocol p = ''tcp''))"
proof -
  have "groupPermits (egress (args instancesSecurityGroup)) p = (pktProtocol p = ''tcp'')" for p
    unfolding groupPermits_def rulePermits_def instancesSecurityGroup_def
    by (simp add: cidr_any_holds port_in_range eq_commute [of "''tcp''"])
  then show ?thesis by (simp add: instancesSecurityGroup_def)
qed

subsection \<open>Claim C5: the size of the scaling group\<close>

text \<open>
  Claim C5. The scaling group is declared with \<open>minSize = 1\<close> and \<open>maxSize = 2\<close>: the sizes
  its template admits are 1 and 2, and whatever size is requested, the size brought into
  the template's bounds lies between 1 and 2.
\<close>

theorem C5_group_size_range:
  "minSize (templateParameters (args (asg s))) = 1
   \<and> maxSize (templateParameters (args (asg s))) = 2
   \<and> (\<forall>n. sizePermitted (templateParameters (args (asg s))) n = (n = 1 \<or> n = 2))
   \<and> (\<forall>r. 1 \<le> clampSize (templateParameters (args (asg s))) r
          \<and> clampSize (templateParameters (args (asg s))) r \<le> 2)"
  by (auto simp add: template_declared sizePermitted_def clampSize_def)

subsection \<open>Claim C6: memory of the container\<close>

text \<open>
  Claim C6. The task definition has one container, \<open>nginx\<close>, whose soft memory reservation
  and hard memory limit are both 256 (MiB).
\<close>

theorem C6_memory_256:
  "containers (args taskDefinition) = [(''nginx'', nginx)]
   \<and> memoryReservation nginx = 256
   \<and> memory nginx = 256"
  by (simp add: taskDefinition_def nginx_def)

subsection \<open>Claim C7: the health check\<close>

text \<open>
  Claim C7. The health check hands the line \<open>curl --fail http://localhost || exit 1\<close> to
  the shell: the probe passes exactly when \<open>curl --fail http://localhost\<close> ends with status
  0, and ends with status 1 otherwise. The interval is 30 seconds, the start period 5
  seconds, the timeout 5 seconds, and with 3 retries the container is marked failed
  exactly when 3 probes in a row have failed.
\<close>

theorem C7_health_check:
  "command (healthCheck nginx) = [''CMD-SHELL'', ''curl --fail http://localhost || exit 1'']
   \<and> (\<forall>env. probeStatus env (healthCheck nginx)
             = Some (if env [''curl'', ''--fail'', ''http://localhost''] = 0 then 0 else 1))
   \<and> interval (healthCheck nginx) = 30
   \<and> startPeriod (healthCheck nginx) = 5
   \<and> timeout (healthCheck nginx) = 5
   \<and> retries (healthCheck nginx) = 3
   \<and> (\<forall>rs. markedFailed (retries (healthCheck nginx)) 0 rs = failedRun 3 rs)"
proof -
  have "probeStatus env (healthCheck nginx)
        = Some (if env [''curl'', ''--fail'', ''http://localhost''] = 0 then 0 else 1)" for env
    by (simp add: probeStatus_def nginx_def runSimple_def parseNat_def digitVal_def)
  moreover have "markedFailed 3 0 rs = failedRun 3 rs" for rs
    using markedFailed_run [of 0 3 rs] by simp
  ultimately show ?thesis by (simp add: nginx_def)
qed

subsection \<open>Claim C8: the boot-time configuration\<close>

text \<open>
  Claim C8 says that the boot-time user data of an instance consists of exactly three
  lines appended to \<open>/etc/ecs/ecs.config\<close>. The rendered boot command section appends
  four: the library's own line \<open>ECS_ENGINE_AUTH_TYPE=docker\<close> comes first, here for the
  suffix \<open>k3x9qz\<close>.
\<close>

theorem C8_rendered_user_data_four_lines:
  "appendedTo ''/etc/ecs/ecs.config''
     (renderBootcmd libraryBootcmdLines
        (lcUserData (launchConfigurationArgs (args (asg ''k3x9qz'')))))
   = [ ''ECS_ENGINE_AUTH_TYPE=docker'',
       ''ECS_CLUSTER=dev-cluster-k3x9qz'',
       ''ECS_ENABLE_CONTAINER_METADATA=true'',
       ''ECS_RESERVED_MEMORY=256'' ]
   \<and> appendedTo ''/etc/ecs/ecs.config''
     (renderBootcmd libraryBootcmdLines
        (lcUserData (launchConfigurationArgs (args (asg ''k3x9qz'')))))
   \<noteq> [ ''ECS_CLUSTER=dev-cluster-k3x9qz'',
       ''ECS_ENABLE_CONTAINER_METADATA=true'',
       ''ECS_RESERVED_MEMORY=256'' ]"
proof -
  have "appendedTo ''/etc/ecs/ecs.config''
     (renderBootcmd libraryBootcmdLines
        (lcUserData (launchConfigurationArgs (args (asg ''k3x9qz'')))))
   = [ ''ECS_ENGINE_AUTH_TYPE=docker'',
       ''ECS_CLUSTER=dev-cluster-k3x9qz'',
       ''ECS_ENABLE_CONTAINER_METADATA=true'',
       ''ECS_RESERVED_MEMORY=256'' ]"
    unfolding renderBootcmd_def appendedTo_append user_data_declared appendedTo_library
      appendedTo_extra [OF generated_unquoted [OF suffix_k3x9qz]]
    by (simp add: clusterIdentifier_def clusterName_def)
  then show ?thesis by simp
qed

text \<open>
  Claim C8, amended. For every generated cluster identifier, the extra boot commands the
  launch configuration declares are exactly three, each appending one line to
  \<open>/etc/ecs/ecs.config\<close>: \<open>ECS_CLUSTER=\<close> followed by the identifier (which is the name
  of the cluster), \<open>ECS_ENABLE_CONTAINER_METADATA=true\<close> and \<open>ECS_RESERVED_MEMORY=256\<close>,
  in this order. In the rendered boot command section they follow whatever the library's
  own boot commands append to that file; with the library's own commands the file
  receives four lines, \<open>ECS_ENGINE_AUTH_TYPE=docker\<close> first and the three declared lines
  after it.
\<close>

theorem C8_extra_boot_lines:
  assumes "randomResult randomStringArgs s"
  shows "extraBootcmdLines (lcUserData (launchConfigurationArgs (args (asg s))))
           = bootcmdLines (clusterIdentifier s)
         \<and> map bootcmdAppends (bootcmdLines (clusterIdentifier s))
           = [ Some (''/etc/ecs/ecs.config'', ''ECS_CLUSTER='' @ clusterIdentifier s),
               Some (''/etc/ecs/ecs.config'', ''ECS_ENABLE_CONTAINER_METADATA=true''),
               Some (''/etc/ecs/ecs.config'', ''ECS_RESERVED_MEMORY=256'') ]
         \<and> name (args (cluster s)) = clusterIdentifier s
         \<and> (\<forall>own. appendedTo ''/etc/ecs/ecs.config''
                     (renderBootcmd own (lcUserData (launchConfigurationArgs (args (asg s)))))
                   = appendedTo ''/etc/ecs/ecs.config'' own
                     @ [ ''ECS_CLUSTER='' @ clusterIdentifier s,
                         ''ECS_ENABLE_CONTAINER_METADATA=true'',
                         ''ECS_RESERVED_MEMORY=256'' ])
         \<and> appendedTo ''/etc/ecs/ecs.config''
              (renderBootcmd libraryBootcmdLines
                 (lcUserData (launchConfigurationArgs (args (asg s)))))
           = [ ''ECS_ENGINE_AUTH_TYPE=docker'',
               ''ECS_CLUSTER='' @ clusterIdentifier s,
               ''ECS_ENABLE_CONTAINER_METADATA=true'',
               ''ECS_RESERVED_MEMORY=256'' ]"
proof -
  note q = generated_unquoted [OF assms]
  have r: "appendedTo ''/etc/ecs/ecs.config''
             (renderBootcmd own (lcUserData (launchConfigurationArgs (args (asg s)))))
           = appendedTo ''/etc/ecs/ecs.config'' own
             @ [ ''ECS_CLUSTER='' @ clusterIdentifier s,
                 ''ECS_ENABLE_CONTAINER_METADATA=true'',
                 ''ECS_RESERVED_MEMORY=256'' ]" for own
    by (simp add: renderBootcmd_def appendedTo_append user_data_declared appendedTo_extra [OF q])
  have n: "name (args (cluster s)) = clusterIdentifier s"
    by (simp add: cluster_def)
  from r [of libraryBootcmdLines] r n bootcmdLines_append [OF q] user_data_declared [of s]
  show ?thesis
    unfolding appendedTo_library by simp
qed

text \<open>Claim C8, amended, at the suffix \<open>k3x9qz\<close>.\<close>

theorem C8_extra_boot_lines_witness:
  "randomResult randomStringArgs ''k3x9qz''
   \<and> map bootcmdAppends (bootcmdLines (clusterIdentifier ''k3x9qz''))
     = [ Some (''/etc/ecs/ecs.config'', ''ECS_CLUSTER=dev-cluster-k3x9qz''),
         Some (''/etc/ecs/ecs.config'', ''ECS_ENABLE_CONTAINER_METADATA=true''),
         Some (''/etc/ecs/ecs.config'', ''ECS_RESERVED_MEMORY=256'') ]"
  using C8_extra_boot_lines [OF suffix_k3x9qz] suffix_k3x9qz
  by (simp add: clusterIdentifier_def clusterName_def)

subsection \<open>Claim C9: the strategies of the service\<close>

text \<open>
  Claim C9. The service is declared with \<open>desiredCount = 1\<close>, exactly one ordered
  placement strategy, of type \<open>spread\<close> over the field \<open>instanceId\<close>, and exactly one
  capacity provider strategy, with base 1 and weight 1, on the capacity provider
  \<open>dev-capacity\<close> that the module creates and gives to the cluster.
\<close>

theorem C9_service_strategies:
  "desiredCount (args service) = 1
   \<and> orderedPlacementStrategies (args service) = [\<lparr> type = ''spread'', field = ''instanceId'' \<rparr>]
   \<and> capacityProviderStrategies (args service)
     = [\<lparr> strategyCapacityProvider = Name (logicalName capacityProvider), base = 1, weight = 1 \<rparr>]
   \<and> logicalName capacityProvider = ''dev-capacity''
   \<and> capacityProviders (args (cluster s)) = [Name (logicalName capacityProvider)]"
  by (simp add: service_def capacityProvider_def cluster_def)

subsection \<open>Claim C10: the scaling policy\<close>




end
